theory Spec2Isabelle
  imports Main "HOL-Library.Char_ord" "HOL-Library.List_Lexorder" "HOL-Library.Multiset"
begin

section \<open>Compact knowledge graph generation (KG\_preprocessing.py)\<close>

text \<open>
  The script reads gene, term and edge rows from CSV files, keeps the label fields,
  and writes one JSON document with a leading \<open>counts\<close> object. This theory embeds
  the row validators, the three loaders, the assembler and \<open>main\<close>, together with
  the part of the Python library they rest on (\<open>csv.DictReader\<close> rows,
  \<open>Path.glob\<close>, \<open>sorted\<close>, \<open>json.dump\<close>), and proves the properties the
  specification states about them.
\<close>

subsection \<open>Rows, paths and exceptions\<close>

text \<open>
  A row is the dictionary \<open>csv.DictReader\<close> yields for one line. A column of the
  header that the line is too short to fill is present with the value \<open>None\<close>, so a
  cell is a \<open>string option\<close>; a column that the header lacks is no key of the row.
  Text is a list of bytes under UTF-8, the encoding the files are opened with.
\<close>

type_synonym row = "string \<rightharpoonup> string option"

text \<open>\<open>row.get(k)\<close>: the value stored under \<open>k\<close>, or \<open>None\<close> when there is no such key.\<close>

definition row_get :: "row \<Rightarrow> string \<Rightarrow> string option" where
  "row_get r k = (case r k of None \<Rightarrow> None | Some v \<Rightarrow> v)"

text \<open>Python's \<open>not v\<close> on a value that is \<open>None\<close> or a string.\<close>

definition py_not :: "string option \<Rightarrow> bool" where
  "py_not v = (case v of None \<Rightarrow> True | Some s \<Rightarrow> s = [])"

text \<open>
  The exceptions that occur: \<open>ValueError\<close> with its message, raised by the validators,
  and \<open>OSError\<close> for whatever the file layer raises when a file cannot be read.
\<close>

datatype exn = ValueError string | OSError string

text \<open>
  A \<open>pathlib.Path\<close> is its tuple of parts (an absolute path starts with the part
  \<open>/\<close>). Paths compare as their part tuples do, each part as a string: the
  lexicographic order on lists over the byte order on characters.
\<close>

type_synonym path = "string list"

fun join :: "string \<Rightarrow> string list \<Rightarrow> string" where
  "join sep [] = []"
| "join sep [x] = x"
| "join sep (x # y # ys) = x @ sep @ join sep (y # ys)"

definition is_absolute :: "path \<Rightarrow> bool" where
  "is_absolute p = (case p of [] \<Rightarrow> False | x # xs \<Rightarrow> x = ''/'')"

text \<open>\<open>str(path)\<close>.\<close>

definition path_str :: "path \<Rightarrow> string" where
  "path_str p = (case p of [] \<Rightarrow> ''.''
     | x # xs \<Rightarrow> if x = ''/'' then ''/'' @ join ''/'' xs else join ''/'' (x # xs))"

text \<open>\<open>a / b\<close> on paths.\<close>

definition path_div :: "path \<Rightarrow> path \<Rightarrow> path" where
  "path_div a b = (if is_absolute b then b else a @ b)"

text \<open>\<open>str(n)\<close> for a natural number, as the f-strings format the row index.\<close>

fun digit_char :: "nat \<Rightarrow> char" where
  "digit_char n = char_of (48 + n)"

fun str_nat :: "nat \<Rightarrow> string" where
  "str_nat n = (if n < 10 then [digit_char n] else str_nat (n div 10) @ [digit_char (n mod 10)])"

declare str_nat.simps [simp del]

subsection \<open>The file system\<close>

text \<open>
  The file system is a parameter. \<open>read_csv fs p\<close> is what iterating
  \<open>_read_csv_rows(p)\<close> does: the rows it yields, in file order, and the exception
  that ends the iteration if there is one (a file that cannot be opened yields no row
  and raises at once; a decoding error raises after the rows before it).
  \<open>scandir fs d\<close> is the list of entry names of directory \<open>d\<close> in the order the
  operating system reports them, or \<open>None\<close> when \<open>d\<close> is not a directory.
\<close>

record filesystem =
  read_csv :: "path \<Rightarrow> row list \<times> exn option"
  scandir :: "path \<Rightarrow> string list option"

text \<open>A name matches the pattern \<open>*.csv\<close> when it ends with \<open>.csv\<close>.\<close>

definition is_csv :: "string \<Rightarrow> bool" where
  "is_csv n = (4 \<le> length n \<and> drop (length n - 4) n = ''.csv'')"

text \<open>
  \<open>d.glob("*.csv")\<close>: the matching entries of \<open>d\<close> as paths, in directory order;
  nothing when \<open>d\<close> is not a directory.
\<close>

definition glob_csv :: "filesystem \<Rightarrow> path \<Rightarrow> path list" where
  "glob_csv fs d = (case scandir fs d of None \<Rightarrow> []
     | Some names \<Rightarrow> map (\<lambda>n. d @ [n]) (filter is_csv names))"

subsection \<open>Entities and row validators\<close>

record GeneNode =
  label :: string

record TermNode =
  label :: string

record Edge =
  source_label :: string
  relation :: string
  target_label :: string

definition GeneNode_from_row :: "row \<Rightarrow> exn + GeneNode" where
  "GeneNode_from_row r =
     (let label = row_get r ''label'' in
      if py_not label then Inl (ValueError ''Gene row is missing required 'label' column'')
      else Inr \<lparr>GeneNode.label = the label\<rparr>)"

definition TermNode_from_row :: "row \<Rightarrow> exn + TermNode" where
  "TermNode_from_row r =
     (let label = row_get r ''label'' in
      if py_not label then Inl (ValueError ''Term row is missing required 'label' column'')
      else Inr \<lparr>TermNode.label = the label\<rparr>)"

definition Edge_from_row :: "row \<Rightarrow> exn + Edge" where
  "Edge_from_row r =
     (let source_label = row_get r ''source_label'';
          relation = row_get r ''relation'';
          target_label = row_get r ''target_label'' in
      if py_not source_label \<or> py_not relation \<or> py_not target_label
      then Inl (ValueError
        ''Edge row is missing required 'source_label', 'relation', or 'target_label' column'')
      else Inr \<lparr>source_label = the source_label, relation = the relation,
                target_label = the target_label\<rparr>)"

subsection \<open>Loaders\<close>

text \<open>
  A loader returns the lines it printed and its outcome: the exception that ended it,
  or the list it built.
\<close>

type_synonym 'a loaded = "string list \<times> (exn + 'a list)"

text \<open>The line a loader prints for a row it skips.\<close>

definition skip_line :: "string \<Rightarrow> nat \<Rightarrow> path \<Rightarrow> string \<Rightarrow> string" where
  "skip_line kind idx p msg =
     ''Skipping invalid '' @ kind @ '' row #'' @ str_nat idx @ '' in '' @ path_str p @ '': '' @ msg"

text \<open>
  The three loaders run the same loop over the enumerated rows of a file, with their
  own validator and their own word in the message:
  \<^verbatim>\<open>
  for idx, row in enumerate(rows, start=1):
      try:
          acc.append(from_row(row))
      except ValueError as exc:
          print(f"Skipping invalid <kind> row #{idx} in {path}: {exc}")
  \<close>
  \<open>acc\<close> is the list built so far and \<open>out\<close> the lines printed so far. An
  exception other than \<open>ValueError\<close> is not caught.
\<close>

fun load_rows :: "(row \<Rightarrow> exn + 'a) \<Rightarrow> string \<Rightarrow> path \<Rightarrow> (nat \<times> row) list
    \<Rightarrow> 'a list \<Rightarrow> string list \<Rightarrow> 'a loaded" where
  "load_rows from_row kind p [] acc out = (out, Inr acc)"
| "load_rows from_row kind p ((idx, r) # rest) acc out =
     (case from_row r of
        Inr x \<Rightarrow> load_rows from_row kind p rest (acc @ [x]) out
      | Inl (ValueError msg) \<Rightarrow>
          load_rows from_row kind p rest acc (out @ [skip_line kind idx p msg])
      | Inl exc \<Rightarrow> (out, Inl exc))"

text \<open>
  \<open>load_gene_nodes\<close> reads the whole file into a list first, so an exception of the
  file layer ends it before any row is looked at.
\<close>

definition load_gene_nodes :: "filesystem \<Rightarrow> path \<Rightarrow> GeneNode loaded" where
  "load_gene_nodes fs gene_node_path =
     (case read_csv fs gene_node_path of
        (rows, Some exc) \<Rightarrow> ([], Inl exc)
      | (rows, None) \<Rightarrow>
          load_rows GeneNode_from_row ''gene'' gene_node_path (enumerate 1 rows) [] [])"

text \<open>
  The loop over the files of \<open>load_term_nodes\<close> and \<open>load_edges\<close>. The rows of a
  file are streamed: the rows read before an exception of the file layer are processed,
  then the exception ends the loader.
\<close>

fun load_files :: "(row \<Rightarrow> exn + 'a) \<Rightarrow> string \<Rightarrow> filesystem \<Rightarrow> path list
    \<Rightarrow> 'a list \<Rightarrow> string list \<Rightarrow> 'a loaded" where
  "load_files from_row kind fs [] acc out = (out, Inr acc)"
| "load_files from_row kind fs (file_path # rest) acc out =
     (case read_csv fs file_path of (rows, err) \<Rightarrow>
        (case load_rows from_row kind file_path (enumerate 1 rows) acc out of
           (out', Inl exc) \<Rightarrow> (out', Inl exc)
         | (out', Inr acc') \<Rightarrow>
             (case err of
                Some exc \<Rightarrow> (out', Inl exc)
              | None \<Rightarrow> load_files from_row kind fs rest acc' out')))"

definition load_term_nodes :: "filesystem \<Rightarrow> path \<Rightarrow> TermNode loaded" where
  "load_term_nodes fs term_dir =
     (let term_files = sort (glob_csv fs term_dir) in
      load_files TermNode_from_row ''term'' fs term_files [] [])"

definition load_edges :: "filesystem \<Rightarrow> path \<Rightarrow> Edge loaded" where
  "load_edges fs edge_dir =
     (let edge_files = sort (glob_csv fs edge_dir) in
      load_files Edge_from_row ''edge'' fs edge_files [] [])"

subsection \<open>The assembler\<close>

text \<open>
  The values the document is made of. An \<open>OrderedDict\<close> and a \<open>dict\<close> are the
  list of their items in insertion order.
\<close>

datatype json = JInt int | JStr string | JList "json list" | JDict "(string \<times> json) list"

text \<open>\<open>x.__dict__\<close> of an entity: its fields in declaration order.\<close>

definition GeneNode_dict :: "GeneNode \<Rightarrow> json" where
  "GeneNode_dict gene = JDict [(''label'', JStr (GeneNode.label gene))]"

definition TermNode_dict :: "TermNode \<Rightarrow> json" where
  "TermNode_dict term = JDict [(''label'', JStr (TermNode.label term))]"

definition Edge_dict :: "Edge \<Rightarrow> json" where
  "Edge_dict edge = JDict [(''source_label'', JStr (source_label edge)),
     (''relation'', JStr (relation edge)), (''target_label'', JStr (target_label edge))]"

definition build_knowledge_graph ::
    "GeneNode list \<Rightarrow> TermNode list \<Rightarrow> Edge list \<Rightarrow> (string \<times> json) list" where
  "build_knowledge_graph gene_nodes term_nodes edges =
     [(''counts'', JDict [(''genes'', JInt (int (length gene_nodes))),
                          (''terms'', JInt (int (length term_nodes))),
                          (''triples'', JInt (int (length edges)))]),
      (''genes'', JList (map GeneNode_dict gene_nodes)),
      (''terms'', JList (map TermNode_dict term_nodes)),
      (''triples'', JList (map Edge_dict edges))]"

text \<open>Reading the document: the value of a top-level key, a count, the length of a list.\<close>

definition doc_get :: "(string \<times> json) list \<Rightarrow> string \<Rightarrow> json option" where
  "doc_get doc k = map_of doc k"

definition doc_count :: "(string \<times> json) list \<Rightarrow> string \<Rightarrow> int option" where
  "doc_count doc k = (case doc_get doc ''counts'' of
     Some (JDict c) \<Rightarrow> (case map_of c k of Some (JInt n) \<Rightarrow> Some n | _ \<Rightarrow> None)
   | _ \<Rightarrow> None)"

definition doc_len :: "(string \<times> json) list \<Rightarrow> string \<Rightarrow> nat option" where
  "doc_len doc k = (case doc_get doc k of Some (JList xs) \<Rightarrow> Some (length xs) | _ \<Rightarrow> None)"

subsection \<open>The serializer\<close>

text \<open>
  \<open>json.dump(payload, f, ensure_ascii=False, indent=2)\<close> on the values above. With
  \<open>ensure_ascii=False\<close> the encoder escapes the quote, the backslash and the
  characters below \<open>0x20\<close>, and writes every other character as it is.
\<close>

definition hex_digit :: "nat \<Rightarrow> char" where
  "hex_digit n = (if n < 10 then char_of (48 + n) else char_of (87 + n))"

definition escape_char :: "char \<Rightarrow> string" where
  "escape_char c =
     (if c = CHR 0x5C then [CHR 0x5C, CHR 0x5C]
      else if c = CHR 0x22 then [CHR 0x5C, CHR 0x22]
      else if c = CHR 0x08 then [CHR 0x5C, CHR ''b'']
      else if c = CHR 0x0C then [CHR 0x5C, CHR ''f'']
      else if c = CHR 0x0A then [CHR 0x5C, CHR ''n'']
      else if c = CHR 0x0D then [CHR 0x5C, CHR ''r'']
      else if c = CHR 0x09 then [CHR 0x5C, CHR ''t'']
      else if (of_char c :: nat) < 32
        then [CHR 0x5C, CHR ''u'', CHR ''0'', CHR ''0'',
              hex_digit (of_char c div 16), hex_digit (of_char c mod 16)]
      else [c])"

definition encode_str :: "string \<Rightarrow> string" where
  "encode_str s = [CHR 0x22] @ concat (map escape_char s) @ [CHR 0x22]"

definition str_int :: "int \<Rightarrow> string" where
  "str_int i = (if i < 0 then ''-'' @ str_nat (nat (- i)) else str_nat (nat i))"

definition newline_indent :: "nat \<Rightarrow> string" where
  "newline_indent level = [CHR 0x0A] @ replicate (2 * level) CHR '' ''"

text \<open>The encoder at nesting depth \<open>level\<close>.\<close>

fun iterencode :: "nat \<Rightarrow> json \<Rightarrow> string" where
  "iterencode level (JInt i) = str_int i"
| "iterencode level (JStr s) = encode_str s"
| "iterencode level (JList xs) =
     (if xs = [] then ''[]''
      else ''['' @ newline_indent (level + 1)
        @ join ('','' @ newline_indent (level + 1)) (map (iterencode (level + 1)) xs)
        @ newline_indent level @ '']'')"
| "iterencode level (JDict items) =
     (if items = [] then ''{}''
      else ''{'' @ newline_indent (level + 1)
        @ join ('','' @ newline_indent (level + 1))
            (map (\<lambda>(k, v). encode_str k @ '': '' @ iterencode (level + 1) v) items)
        @ newline_indent level @ ''}'')"

definition json_dump :: "(string \<times> json) list \<Rightarrow> string" where
  "json_dump payload = iterencode 0 (JDict payload)"

subsection \<open>The program\<close>

record args =
  data_root :: path
  gene_file :: path
  term_dir :: path
  edge_dir :: path
  output_file :: path

text \<open>
  \<open>main\<close> returns the lines printed and, when no exception ended it, the path of the
  output file with the text written to it.
\<close>

definition main :: "filesystem \<Rightarrow> args \<Rightarrow> string list \<times> (exn + path \<times> string)" where
  "main fs a =
     (let gene_file' = (if is_absolute (gene_file a) then gene_file a
                        else path_div (data_root a) (gene_file a));
          term_dir' = (if is_absolute (term_dir a) then term_dir a
                       else path_div (data_root a) (term_dir a));
          edge_dir' = (if is_absolute (edge_dir a) then edge_dir a
                       else path_div (data_root a) (edge_dir a))
      in case load_gene_nodes fs gene_file' of
           (out1, Inl exc) \<Rightarrow> (out1, Inl exc)
         | (out1, Inr gene_nodes) \<Rightarrow>
      (case load_term_nodes fs term_dir' of
           (out2, Inl exc) \<Rightarrow> (out1 @ out2, Inl exc)
         | (out2, Inr term_nodes) \<Rightarrow>
      (case load_edges fs edge_dir' of
           (out3, Inl exc) \<Rightarrow> (out1 @ out2 @ out3, Inl exc)
         | (out3, Inr edges) \<Rightarrow>
      (let kg_payload = build_knowledge_graph gene_nodes term_nodes edges;
           output_path = (if is_absolute (output_file a) then output_file a
                          else path_div (data_root a) (output_file a))
       in (out1 @ out2 @ out3
             @ [''Compact knowledge graph written to '' @ path_str output_path],
           Inr (output_path, json_dump kg_payload))))))"

subsection \<open>Notions of the specification\<close>

text \<open>
  The rows of a file that pass a validator give the entities \<open>built\<close> from it, in
  row order; the rows that fail give the \<open>skip_lines\<close>, in row order, each with
  the 1-based index of its row.
\<close>

definition exn_str :: "exn \<Rightarrow> string" where
  "exn_str exc = (case exc of ValueError msg \<Rightarrow> msg | OSError msg \<Rightarrow> msg)"

definition built :: "(row \<Rightarrow> exn + 'a) \<Rightarrow> row list \<Rightarrow> 'a list" where
  "built from_row rows = map (\<lambda>r. projr (from_row r)) (filter (\<lambda>r. \<not> isl (from_row r)) rows)"

definition skip_lines :: "(row \<Rightarrow> exn + 'a) \<Rightarrow> string \<Rightarrow> path \<Rightarrow> (nat \<times> row) list \<Rightarrow> string list" where
  "skip_lines from_row kind p irows =
     map (\<lambda>(idx, r). skip_line kind idx p (exn_str (projl (from_row r))))
       (filter (\<lambda>(idx, r). isl (from_row r)) irows)"

text \<open>
  A list of files reads cleanly when iterating over none of them raises. The entities
  and the diagnostics of a list of files are those of each file, in the order of the
  list.
\<close>

definition reads_cleanly :: "filesystem \<Rightarrow> path list \<Rightarrow> bool" where
  "reads_cleanly fs files = (filter (\<lambda>f. snd (read_csv fs f) \<noteq> None) files = [])"

definition entities_of :: "(row \<Rightarrow> exn + 'a) \<Rightarrow> filesystem \<Rightarrow> path list \<Rightarrow> 'a list" where
  "entities_of from_row fs files = concat (map (\<lambda>f. built from_row (fst (read_csv fs f))) files)"

definition diagnostics_of ::
    "(row \<Rightarrow> exn + 'a) \<Rightarrow> string \<Rightarrow> filesystem \<Rightarrow> path list \<Rightarrow> string list" where
  "diagnostics_of from_row kind fs files =
     concat (map (\<lambda>f. skip_lines from_row kind f (enumerate 1 (fst (read_csv fs f)))) files)"

text \<open>The file system with the rows that a validator rejects removed from every file.\<close>

definition without_invalid :: "(row \<Rightarrow> exn + 'a) \<Rightarrow> filesystem \<Rightarrow> filesystem" where
  "without_invalid from_row fs = fs \<lparr> read_csv := (\<lambda>p.
     case read_csv fs p of (rows, err) \<Rightarrow> (filter (\<lambda>r. \<not> isl (from_row r)) rows, err)) \<rparr>"

text \<open>
  A string of whitespace only, as \<open>str.strip\<close> sees it: not empty, and every
  character one of space, tab, line feed, vertical tab, form feed, carriage return.
\<close>

definition whitespace_only :: "string \<Rightarrow> bool" where
  "whitespace_only s =
     (s \<noteq> [] \<and> filter (\<lambda>c. c \<notin> set [CHR '' '', CHR 0x09, CHR 0x0A, CHR 0x0B, CHR 0x0C, CHR 0x0D]) s = [])"

text \<open>\<open>s.startswith(t)\<close> and \<open>t in s\<close> on strings.\<close>

fun str_startswith :: "string \<Rightarrow> string \<Rightarrow> bool" where
  "str_startswith s [] = True"
| "str_startswith [] (c # t) = False"
| "str_startswith (d # s) (c # t) = (d = c \<and> str_startswith s t)"

fun str_contains :: "string \<Rightarrow> string \<Rightarrow> bool" where
  "str_contains [] t = (t = [])"
| "str_contains (d # s) t = (str_startswith (d # s) t \<or> str_contains s t)"

subsection \<open>Example inputs\<close>

text \<open>
  A small file system with the default layout under \<open>data\<close>: a gene file with an
  empty label in its second row, two term files listed out of order beside a file that
  is no CSV file, and an edge file whose first row has an empty relation.
\<close>

definition example_gene_path :: path where
  "example_gene_path = [''data'', ''gene_node'', ''Gene.nodes.csv'']"

definition example_fs :: filesystem where
  "example_fs = \<lparr>
     read_csv = (\<lambda>p.
       if p = [''data'', ''gene_node'', ''Gene.nodes.csv'']
       then ([[''label'' \<mapsto> Some ''TP53''], [''label'' \<mapsto> Some ''''], [''label'' \<mapsto> Some ''BRCA1'']], None)
       else if p = [''data'', ''term_node'', ''a.csv'']
       then ([[''label'' \<mapsto> Some ''GO:001'']], None)
       else if p = [''data'', ''term_node'', ''b.csv'']
       then ([[''label'' \<mapsto> Some ''GO:002''], [''label'' \<mapsto> None]], None)
       else if p = [''data'', ''term_gene_edge'', ''e.csv'']
       then ([[''source_label'' \<mapsto> Some ''GO:001'', ''relation'' \<mapsto> Some '''', ''target_label'' \<mapsto> Some ''TP53''],
              [''source_label'' \<mapsto> Some ''GO:001'', ''relation'' \<mapsto> Some ''annotates'', ''target_label'' \<mapsto> Some ''TP53'']], None)
       else ([], Some (OSError ''No such file or directory''))),
     scandir = (\<lambda>d.
       if d = [''data'', ''term_node''] then Some [''b.csv'', ''notes.txt'', ''a.csv'']
       else if d = [''data'', ''term_gene_edge''] then Some [''e.csv'']
       else if d = [''data'', ''empty''] then Some []
       else None) \<rparr>"

text \<open>The same files, with the term directory listed in another order.\<close>

definition example_fs_reordered :: filesystem where
  "example_fs_reordered = example_fs \<lparr> scandir := (\<lambda>d.
       if d = [''data'', ''term_node''] then Some [''a.csv'', ''b.csv'', ''notes.txt'']
       else scandir example_fs d) \<rparr>"

text \<open>The default arguments of \<open>parse_args\<close>.\<close>

definition example_args :: args where
  "example_args = \<lparr> data_root = [''data''], gene_file = [''gene_node'', ''Gene.nodes.csv''],
     term_dir = [''term_node''], edge_dir = [''term_gene_edge''],
     output_file = [''compact_kg.json''] \<rparr>"

section \<open>Properties\<close>

subsection \<open>Validators and the row loop\<close>

lemma GeneNode_raises: "GeneNode_from_row r = Inl exc \<Longrightarrow>
    exc = ValueError ''Gene row is missing required 'label' column''"
  by (auto simp: GeneNode_from_row_def Let_def split: if_splits)

lemma TermNode_raises: "TermNode_from_row r = Inl exc \<Longrightarrow>
    exc = ValueError ''Term row is missing required 'label' column''"
  by (auto simp: TermNode_from_row_def Let_def split: if_splits)

lemma Edge_raises: "Edge_from_row r = Inl exc \<Longrightarrow>
    exc = ValueError ''Edge row is missing required 'source_label', 'relation', or 'target_label' column''"
  by (auto simp: Edge_from_row_def Let_def split: if_splits)

lemma built_Nil [simp]: "built from_row [] = []"
  by (simp add: built_def)

lemma built_Cons: "built from_row (r # rows) =
    (case from_row r of Inl exc \<Rightarrow> built from_row rows | Inr x \<Rightarrow> x # built from_row rows)"
  by (simp add: built_def split: sum.split)

lemma built_append: "built from_row (xs @ ys) = built from_row xs @ built from_row ys"
  by (simp add: built_def)

lemma skip_lines_Nil [simp]: "skip_lines from_row kind p [] = []"
  by (simp add: skip_lines_def)

lemma skip_lines_Cons: "skip_lines from_row kind p ((idx, r) # irows) =
    (case from_row r of Inl exc \<Rightarrow> skip_line kind idx p (exn_str exc) # skip_lines from_row kind p irows
     | Inr x \<Rightarrow> skip_lines from_row kind p irows)"
  by (simp add: skip_lines_def split: sum.split)

lemma load_rows_eq:
  assumes "\<And>r exc. from_row r = Inl exc \<Longrightarrow> \<exists>msg. exc = ValueError msg"
  shows "load_rows from_row kind p irows acc out =
    (out @ skip_lines from_row kind p irows, Inr (acc @ built from_row (map snd irows)))"
proof (induction irows arbitrary: acc out)
  case Nil
  show ?case by simp
next
  case (Cons ir irows)
  obtain idx r where ir: "ir = (idx, r)" by (cases ir)
  show ?case
  proof (cases "from_row r")
    case (Inl exc)
    then obtain msg where "exc = ValueError msg" using assms by blast
    with Inl show ?thesis
      by (simp add: ir Cons.IH skip_lines_Cons built_Cons exn_str_def)
  next
    case (Inr x)
    then show ?thesis
      by (simp add: ir Cons.IH skip_lines_Cons built_Cons)
  qed
qed

lemma load_files_eq:
  assumes raises: "\<And>r exc. from_row r = Inl exc \<Longrightarrow> \<exists>msg. exc = ValueError msg"
    and ok: "\<forall>f \<in> set files. snd (read_csv fs f) = None"
  shows "load_files from_row kind fs files acc out =
    (out @ concat (map (\<lambda>f. skip_lines from_row kind f (enumerate 1 (fst (read_csv fs f)))) files),
     Inr (acc @ concat (map (\<lambda>f. built from_row (fst (read_csv fs f))) files)))"
  using ok
proof (induction files arbitrary: acc out)
  case Nil
  show ?case by simp
next
  case (Cons f files)
  obtain rows where rd: "read_csv fs f = (rows, None)"
    using Cons.prems by (cases "read_csv fs f") auto
  have rest: "\<forall>f \<in> set files. snd (read_csv fs f) = None"
    using Cons.prems by simp
  show ?case
    by (simp add: rd load_rows_eq [OF raises] Cons.IH [OF rest])
qed

lemma load_files_raises:
  assumes raises: "\<And>r exc. from_row r = Inl exc \<Longrightarrow> \<exists>msg. exc = ValueError msg"
    and bad: "\<exists>f \<in> set files. snd (read_csv fs f) \<noteq> None"
  shows "isl (snd (load_files from_row kind fs files acc out))"
  using bad
proof (induction files arbitrary: acc out)
  case Nil
  then show ?case by simp
next
  case (Cons f files)
  obtain rows err where rd: "read_csv fs f = (rows, err)"
    by (cases "read_csv fs f")
  show ?case
  proof (cases err)
    case None
    with rd Cons.prems have "\<exists>f \<in> set files. snd (read_csv fs f) \<noteq> None" by auto
    from Cons.IH [OF this] show ?thesis
      by (simp add: rd None load_rows_eq [OF raises])
  next
    case (Some exc)
    then show ?thesis
      by (simp add: rd load_rows_eq [OF raises])
  qed
qed

lemma append_le_append: "(d :: 'a :: linorder list) @ xs \<le> d @ ys \<longleftrightarrow> xs \<le> ys"
  by (induction d) auto

lemma sorted_map_child:
  fixes d :: path and ns :: "string list"
  shows "sorted ns \<Longrightarrow> sorted (map (\<lambda>n. d @ [n]) ns)"
  by (induction ns) (auto simp: append_le_append less_le)

lemma sort_map_child:
  fixes d :: path and ns :: "string list"
  shows "sort (map (\<lambda>n. d @ [n]) ns) = map (\<lambda>n. d @ [n]) (sort ns)"
  by (rule properties_for_sort) (simp_all add: sorted_map_child)

lemma sort_glob_csv:
  "sort (glob_csv fs d) =
     (case scandir fs d of None \<Rightarrow> [] | Some names \<Rightarrow> map (\<lambda>n. d @ [n]) (sort (filter is_csv names)))"
  by (simp add: glob_csv_def sort_map_child split: option.split)

lemma length_filter_enumerate:
  "length (filter (\<lambda>(idx, r). P r) (enumerate n rows)) = length (filter P rows)"
  by (induction rows arbitrary: n) auto

lemma built_skip_lines_length:
  "length (built from_row rows) + length (skip_lines from_row kind p (enumerate n rows)) = length rows"
proof -
  have "length (skip_lines from_row kind p (enumerate n rows)) = length (filter (\<lambda>r. isl (from_row r)) rows)"
    by (simp add: skip_lines_def length_filter_enumerate)
  moreover have "length (built from_row rows) = length (filter (\<lambda>r. \<not> isl (from_row r)) rows)"
    by (simp add: built_def)
  ultimately show ?thesis
    using sum_length_filter_compl [of "\<lambda>r. isl (from_row r)" rows] by simp
qed

lemma load_gene_nodes_eq:
  assumes "read_csv fs p = (rows, None)"
  shows "load_gene_nodes fs p =
    (skip_lines GeneNode_from_row ''gene'' p (enumerate 1 rows), Inr (built GeneNode_from_row rows))"
proof -
  have "\<exists>msg. exc = ValueError msg" if "GeneNode_from_row r = Inl exc" for r exc
    using GeneNode_raises [OF that] by blast
  from load_rows_eq [of GeneNode_from_row, OF this] show ?thesis
    by (simp add: load_gene_nodes_def assms)
qed

lemma load_term_nodes_eq:
  assumes "\<forall>f \<in> set (glob_csv fs d). snd (read_csv fs f) = None"
  shows "load_term_nodes fs d =
    (concat (map (\<lambda>f. skip_lines TermNode_from_row ''term'' f (enumerate 1 (fst (read_csv fs f))))
       (sort (glob_csv fs d))),
     Inr (concat (map (\<lambda>f. built TermNode_from_row (fst (read_csv fs f))) (sort (glob_csv fs d)))))"
proof -
  have raises: "\<exists>msg. exc = ValueError msg" if "TermNode_from_row r = Inl exc" for r exc
    using TermNode_raises [OF that] by blast
  have "\<forall>f \<in> set (sort (glob_csv fs d)). snd (read_csv fs f) = None"
    using assms by simp
  from load_files_eq [of TermNode_from_row, OF raises this] show ?thesis
    by (simp add: load_term_nodes_def)
qed

lemma load_edges_eq:
  assumes "\<forall>f \<in> set (glob_csv fs d). snd (read_csv fs f) = None"
  shows "load_edges fs d =
    (concat (map (\<lambda>f. skip_lines Edge_from_row ''edge'' f (enumerate 1 (fst (read_csv fs f))))
       (sort (glob_csv fs d))),
     Inr (concat (map (\<lambda>f. built Edge_from_row (fst (read_csv fs f))) (sort (glob_csv fs d)))))"
proof -
  have raises: "\<exists>msg. exc = ValueError msg" if "Edge_from_row r = Inl exc" for r exc
    using Edge_raises [OF that] by blast
  have "\<forall>f \<in> set (sort (glob_csv fs d)). snd (read_csv fs f) = None"
    using assms by simp
  from load_files_eq [of Edge_from_row, OF raises this] show ?thesis
    by (simp add: load_edges_def)
qed

subsection \<open>Claims\<close>

lemma py_not_iff: "py_not v \<longleftrightarrow> v = None \<or> v = Some []"
  by (simp add: py_not_def split: option.split)

text \<open>
  Claim C1, as amended. A validator raises exactly when a required field of its kind
  is absent from the row (no such key, or the value \<open>None\<close>) or is the empty
  string. Whitespace plays no part: the test is Python's \<open>not\<close>, which a
  string of blanks passes.
\<close>

theorem validator_rejects_absent_or_empty:
  "(isl (GeneNode_from_row r) \<longleftrightarrow> row_get r ''label'' = None \<or> row_get r ''label'' = Some [])
 \<and> (isl (TermNode_from_row r) \<longleftrightarrow> row_get r ''label'' = None \<or> row_get r ''label'' = Some [])
 \<and> (isl (Edge_from_row r) \<longleftrightarrow>
        (row_get r ''source_label'' = None \<or> row_get r ''source_label'' = Some [])
      \<or> (row_get r ''relation'' = None \<or> row_get r ''relation'' = Some [])
      \<or> (row_get r ''target_label'' = None \<or> row_get r ''target_label'' = Some []))"
  by (simp add: GeneNode_from_row_def TermNode_from_row_def Edge_from_row_def Let_def py_not_iff)

text \<open>
  The theorem at four rows: an empty gene label, a term label that is \<open>None\<close>,
  an edge with an empty relation, and a gene row that is accepted.
\<close>

theorem validator_rejects_absent_or_empty_witness:
  "isl (GeneNode_from_row [''label'' \<mapsto> Some ''''])
 \<and> isl (TermNode_from_row [''label'' \<mapsto> None])
 \<and> isl (Edge_from_row [''source_label'' \<mapsto> Some ''GO:001'', ''relation'' \<mapsto> Some '''', ''target_label'' \<mapsto> Some ''TP53''])
 \<and> \<not> isl (GeneNode_from_row [''label'' \<mapsto> Some ''TP53''])"
  using validator_rejects_absent_or_empty [of "[''label'' \<mapsto> Some '''']"]
    validator_rejects_absent_or_empty [of "[''label'' \<mapsto> None]"]
    validator_rejects_absent_or_empty [of "[''source_label'' \<mapsto> Some ''GO:001'', ''relation'' \<mapsto> Some '''', ''target_label'' \<mapsto> Some ''TP53'']"]
    validator_rejects_absent_or_empty [of "[''label'' \<mapsto> Some ''TP53'']"]
  by (simp add: row_get_def)

text \<open>
  Claim C1 as stated fails: a gene row whose label is one blank is accepted, and the
  row loop keeps the entity built from it.
\<close>

theorem whitespace_label_accepted:
  "whitespace_only '' ''
 \<and> GeneNode_from_row [''label'' \<mapsto> Some '' ''] = Inr \<lparr>GeneNode.label = '' ''\<rparr>
 \<and> load_rows GeneNode_from_row ''gene'' [''genes.csv''] [(1, [''label'' \<mapsto> Some '' ''])] [] []
      = ([], Inr [\<lparr>GeneNode.label = '' ''\<rparr>])"
  by (simp add: whitespace_only_def GeneNode_from_row_def row_get_def py_not_def)

text \<open>
  Claim C3. When a validator returns an entity, each field of the entity is the very
  string stored in the row under the column of the same name.
\<close>

theorem entity_fields_verbatim:
  "(GeneNode_from_row r = Inr g \<longrightarrow> r ''label'' = Some (Some (GeneNode.label g)))
 \<and> (TermNode_from_row r = Inr t \<longrightarrow> r ''label'' = Some (Some (TermNode.label t)))
 \<and> (Edge_from_row r = Inr e \<longrightarrow> r ''source_label'' = Some (Some (source_label e))
       \<and> r ''relation'' = Some (Some (relation e)) \<and> r ''target_label'' = Some (Some (target_label e)))"
  by (auto simp add: GeneNode_from_row_def TermNode_from_row_def Edge_from_row_def Let_def
      py_not_def row_get_def split: option.splits if_splits)

text \<open>
  The theorem at a gene row whose label has blanks around it and lower-case letters,
  at a term row and at an edge row: the values are kept as they are.
\<close>

theorem entity_fields_verbatim_witness:
  "GeneNode_from_row [''label'' \<mapsto> Some '' tp53 ''] = Inr \<lparr>GeneNode.label = '' tp53 ''\<rparr>
 \<and> [''label'' \<mapsto> Some '' tp53 ''] ''label'' = Some (Some (GeneNode.label \<lparr>GeneNode.label = '' tp53 ''\<rparr>))
 \<and> TermNode_from_row [''label'' \<mapsto> Some ''GO:001''] = Inr \<lparr>TermNode.label = ''GO:001''\<rparr>
 \<and> [''label'' \<mapsto> Some ''GO:001''] ''label'' = Some (Some (TermNode.label \<lparr>TermNode.label = ''GO:001''\<rparr>))
 \<and> Edge_from_row [''source_label'' \<mapsto> Some ''GO:001'', ''relation'' \<mapsto> Some ''annotates'', ''target_label'' \<mapsto> Some ''TP53'']
     = Inr \<lparr>source_label = ''GO:001'', relation = ''annotates'', target_label = ''TP53''\<rparr>
 \<and> [''source_label'' \<mapsto> Some ''GO:001'', ''relation'' \<mapsto> Some ''annotates'', ''target_label'' \<mapsto> Some ''TP53''] ''relation''
     = Some (Some (relation \<lparr>source_label = ''GO:001'', relation = ''annotates'', target_label = ''TP53''\<rparr>))"
proof -
  have g: "GeneNode_from_row [''label'' \<mapsto> Some '' tp53 ''] = Inr \<lparr>GeneNode.label = '' tp53 ''\<rparr>"
    by (simp add: GeneNode_from_row_def row_get_def py_not_def)
  have t: "TermNode_from_row [''label'' \<mapsto> Some ''GO:001''] = Inr \<lparr>TermNode.label = ''GO:001''\<rparr>"
    by (simp add: TermNode_from_row_def row_get_def py_not_def)
  have e: "Edge_from_row [''source_label'' \<mapsto> Some ''GO:001'', ''relation'' \<mapsto> Some ''annotates'', ''target_label'' \<mapsto> Some ''TP53'']
     = Inr \<lparr>source_label = ''GO:001'', relation = ''annotates'', target_label = ''TP53''\<rparr>"
    by (simp add: Edge_from_row_def row_get_def py_not_def)
  note g' = entity_fields_verbatim [THEN conjunct1, rule_format, OF g]
  note t' = entity_fields_verbatim [THEN conjunct2, THEN conjunct1, rule_format, OF t]
  note e' = entity_fields_verbatim [THEN conjunct2, THEN conjunct2, rule_format, OF e]
  from g g' t t' e e' show ?thesis
    by (simp only: simp_thms)
qed

text \<open>
  Claim C2. In the document that \<open>build_knowledge_graph\<close> returns, each count is
  the length of the input sequence, which is the length of the list stored in the
  document, and \<open>counts\<close> is the first key.
\<close>

theorem counts_match_lengths:
  "doc_count (build_knowledge_graph genes terms triples) ''genes'' = Some (int (length genes))
 \<and> doc_count (build_knowledge_graph genes terms triples) ''terms'' = Some (int (length terms))
 \<and> doc_count (build_knowledge_graph genes terms triples) ''triples'' = Some (int (length triples))
 \<and> doc_len (build_knowledge_graph genes terms triples) ''genes'' = Some (length genes)
 \<and> doc_len (build_knowledge_graph genes terms triples) ''terms'' = Some (length terms)
 \<and> doc_len (build_knowledge_graph genes terms triples) ''triples'' = Some (length triples)
 \<and> take 1 (map fst (build_knowledge_graph genes terms triples)) = [''counts'']"
  by (simp add: doc_count_def doc_len_def doc_get_def build_knowledge_graph_def)

lemma inj_GeneNode_dict: "inj GeneNode_dict"
  by (rule injI) (simp add: GeneNode_dict_def)

lemma inj_TermNode_dict: "inj TermNode_dict"
  by (rule injI) (simp add: TermNode_dict_def)

lemma inj_Edge_dict: "inj Edge_dict"
  by (rule injI) (simp add: Edge_dict_def)

text \<open>
  Claim C7. The document is a function of the three sequences alone. Its lists hold
  the field dictionaries of the input elements, one per element and in the input order,
  and they determine the input sequences: nothing is sorted, merged or dropped.
\<close>

theorem document_keeps_sequences:
  "doc_get (build_knowledge_graph genes terms triples) ''genes'' = Some (JList (map GeneNode_dict genes))
 \<and> doc_get (build_knowledge_graph genes terms triples) ''terms'' = Some (JList (map TermNode_dict terms))
 \<and> doc_get (build_knowledge_graph genes terms triples) ''triples'' = Some (JList (map Edge_dict triples))
 \<and> map fst (build_knowledge_graph genes terms triples) = [''counts'', ''genes'', ''terms'', ''triples'']
 \<and> (map GeneNode_dict genes = map GeneNode_dict genes') = (genes = genes')
 \<and> (map TermNode_dict terms = map TermNode_dict terms') = (terms = terms')
 \<and> (map Edge_dict triples = map Edge_dict triples') = (triples = triples')"
  by (simp add: doc_get_def build_knowledge_graph_def
      inj_GeneNode_dict inj_TermNode_dict inj_Edge_dict)

text \<open>
  Claim C9 as stated fails: the second row of the example gene file is rejected with a
  message that does not contain the path of the file. A validator is given the row
  only, so its message cannot depend on the file.
\<close>

theorem message_lacks_file_context:
  "GeneNode_from_row (fst (read_csv example_fs example_gene_path) ! 1)
     = Inl (ValueError ''Gene row is missing required 'label' column'')
 \<and> \<not> str_contains ''Gene row is missing required 'label' column'' (path_str example_gene_path)"
  by (simp add: example_fs_def example_gene_path_def GeneNode_from_row_def row_get_def py_not_def path_str_def)

text \<open>
  Claim C9, as amended. The message of the error a validator raises names the entity
  kind (it starts with \<open>Gene\<close>, \<open>Term\<close> or \<open>Edge\<close>) and the required
  columns. The file and the 1-based row index are named by the line the loader prints
  for the row, which ends with the message.
\<close>

theorem message_names_kind_diagnostic_names_file:
  "(GeneNode_from_row r = Inl exc \<longrightarrow>
      exc = ValueError ''Gene row is missing required 'label' column''
    \<and> load_rows GeneNode_from_row ''gene'' p [(idx, r)] [] [] =
        ([''Skipping invalid gene row #'' @ str_nat idx @ '' in '' @ path_str p
           @ '': Gene row is missing required 'label' column''], Inr []))
 \<and> (TermNode_from_row r = Inl exc \<longrightarrow>
      exc = ValueError ''Term row is missing required 'label' column''
    \<and> load_rows TermNode_from_row ''term'' p [(idx, r)] [] [] =
        ([''Skipping invalid term row #'' @ str_nat idx @ '' in '' @ path_str p
           @ '': Term row is missing required 'label' column''], Inr []))
 \<and> (Edge_from_row r = Inl exc \<longrightarrow>
      exc = ValueError ''Edge row is missing required 'source_label', 'relation', or 'target_label' column''
    \<and> load_rows Edge_from_row ''edge'' p [(idx, r)] [] [] =
        ([''Skipping invalid edge row #'' @ str_nat idx @ '' in '' @ path_str p
           @ '': Edge row is missing required 'source_label', 'relation', or 'target_label' column''], Inr []))"
proof (intro conjI impI)
  assume a: "GeneNode_from_row r = Inl exc"
  from GeneNode_raises [OF a] show "exc = ValueError ''Gene row is missing required 'label' column''" .
  with a show "load_rows GeneNode_from_row ''gene'' p [(idx, r)] [] [] =
        ([''Skipping invalid gene row #'' @ str_nat idx @ '' in '' @ path_str p
           @ '': Gene row is missing required 'label' column''], Inr [])"
    by (simp add: skip_line_def)
next
  assume a: "TermNode_from_row r = Inl exc"
  from TermNode_raises [OF a] show "exc = ValueError ''Term row is missing required 'label' column''" .
  with a show "load_rows TermNode_from_row ''term'' p [(idx, r)] [] [] =
        ([''Skipping invalid term row #'' @ str_nat idx @ '' in '' @ path_str p
           @ '': Term row is missing required 'label' column''], Inr [])"
    by (simp add: skip_line_def)
next
  assume a: "Edge_from_row r = Inl exc"
  from Edge_raises [OF a] show "exc = ValueError ''Edge row is missing required 'source_label', 'relation', or 'target_label' column''" .
  with a show "load_rows Edge_from_row ''edge'' p [(idx, r)] [] [] =
        ([''Skipping invalid edge row #'' @ str_nat idx @ '' in '' @ path_str p
           @ '': Edge row is missing required 'source_label', 'relation', or 'target_label' column''], Inr [])"
    by (simp add: skip_line_def)
qed

text \<open>
  The theorem at the rejected rows of the example: the second row of the gene file,
  the second row of \<open>b.csv\<close> and the first row of the edge file.
\<close>

theorem message_names_kind_diagnostic_names_file_witness:
  "GeneNode_from_row [''label'' \<mapsto> Some ''''] = Inl (ValueError ''Gene row is missing required 'label' column'')
 \<and> load_rows GeneNode_from_row ''gene'' example_gene_path [(2, [''label'' \<mapsto> Some ''''])] [] [] =
      ([''Skipping invalid gene row #2 in data/gene_node/Gene.nodes.csv: Gene row is missing required 'label' column''], Inr [])
 \<and> TermNode_from_row [''label'' \<mapsto> None] = Inl (ValueError ''Term row is missing required 'label' column'')
 \<and> load_rows TermNode_from_row ''term'' [''data'', ''term_node'', ''b.csv''] [(2, [''label'' \<mapsto> None])] [] [] =
      ([''Skipping invalid term row #2 in data/term_node/b.csv: Term row is missing required 'label' column''], Inr [])
 \<and> Edge_from_row [''source_label'' \<mapsto> Some ''GO:001'', ''relation'' \<mapsto> Some '''', ''target_label'' \<mapsto> Some ''TP53'']
      = Inl (ValueError ''Edge row is missing required 'source_label', 'relation', or 'target_label' column'')
 \<and> load_rows Edge_from_row ''edge'' [''data'', ''term_gene_edge'', ''e.csv'']
        [(1, [''source_label'' \<mapsto> Some ''GO:001'', ''relation'' \<mapsto> Some '''', ''target_label'' \<mapsto> Some ''TP53''])] [] [] =
      ([''Skipping invalid edge row #1 in data/term_gene_edge/e.csv: Edge row is missing required 'source_label', 'relation', or 'target_label' column''], Inr [])"
proof -
  have g: "GeneNode_from_row [''label'' \<mapsto> Some ''''] = Inl (ValueError ''Gene row is missing required 'label' column'')"
    by (simp add: GeneNode_from_row_def row_get_def py_not_def)
  have t: "TermNode_from_row [''label'' \<mapsto> None] = Inl (ValueError ''Term row is missing required 'label' column'')"
    by (simp add: TermNode_from_row_def row_get_def py_not_def)
  have e: "Edge_from_row [''source_label'' \<mapsto> Some ''GO:001'', ''relation'' \<mapsto> Some '''', ''target_label'' \<mapsto> Some ''TP53'']
      = Inl (ValueError ''Edge row is missing required 'source_label', 'relation', or 'target_label' column'')"
    by (simp add: Edge_from_row_def row_get_def py_not_def)
  have s: "str_nat 2 = ''2''" "str_nat (Suc 0) = ''1''"
    by code_simp+
  note g' = message_names_kind_diagnostic_names_file
    [where p = example_gene_path and idx = 2, THEN conjunct1, rule_format, OF g]
  note t' = message_names_kind_diagnostic_names_file
    [where p = "[''data'', ''term_node'', ''b.csv'']" and idx = 2, THEN conjunct2, THEN conjunct1, rule_format, OF t]
  note e' = message_names_kind_diagnostic_names_file
    [where p = "[''data'', ''term_gene_edge'', ''e.csv'']" and idx = 1, THEN conjunct2, THEN conjunct2, rule_format, OF e]
  from g g' t t' e e' show ?thesis
    by (simp add: s path_str_def example_gene_path_def)
qed

subsection \<open>Loaders over whole files\<close>

lemma reads_cleanly_iff: "reads_cleanly fs files \<longleftrightarrow> (\<forall>f \<in> set files. snd (read_csv fs f) = None)"
  by (auto simp: reads_cleanly_def filter_empty_conv)

lemma reads_cleanly_sort [simp]: "reads_cleanly fs (sort files) = reads_cleanly fs files"
  by (simp add: reads_cleanly_iff)

lemma built_filter: "built from_row (filter (\<lambda>r. \<not> isl (from_row r)) rows) = built from_row rows"
  by (simp add: built_def)

lemma glob_csv_without_invalid [simp]: "glob_csv (without_invalid from_row fs) d = glob_csv fs d"
  by (simp add: glob_csv_def without_invalid_def)

lemma load_files_without_invalid:
  assumes raises: "\<And>r exc. from_row r = Inl exc \<Longrightarrow> \<exists>msg. exc = ValueError msg"
  shows "snd (load_files from_row kind (without_invalid from_row fs) files acc out) =
         snd (load_files from_row kind fs files acc out')"
proof (induction files arbitrary: acc out out')
  case Nil
  show ?case by simp
next
  case (Cons f files)
  obtain rows err where rd: "read_csv fs f = (rows, err)"
    by (cases "read_csv fs f")
  then have rd': "read_csv (without_invalid from_row fs) f = (filter (\<lambda>r. \<not> isl (from_row r)) rows, err)"
    by (simp add: without_invalid_def)
  show ?case
  proof (cases err)
    case None
    then show ?thesis
      by (simp add: rd rd' load_rows_eq [OF raises] built_filter Cons.IH)
  next
    case (Some exc)
    then show ?thesis
      by (simp add: rd rd' load_rows_eq [OF raises])
  qed
qed

lemma load_gene_nodes_raises:
  assumes "read_csv fs p = (rows, Some exc)"
  shows "load_gene_nodes fs p = ([], Inl exc)"
  by (simp add: load_gene_nodes_def assms)

lemma load_gene_nodes_without_invalid:
  "snd (load_gene_nodes (without_invalid GeneNode_from_row fs) p) = snd (load_gene_nodes fs p)"
proof -
  obtain rows err where rd: "read_csv fs p = (rows, err)"
    by (cases "read_csv fs p")
  then have rd': "read_csv (without_invalid GeneNode_from_row fs) p =
      (filter (\<lambda>r. \<not> isl (GeneNode_from_row r)) rows, err)"
    by (simp add: without_invalid_def)
  show ?thesis
  proof (cases err)
    case None
    with rd rd' show ?thesis
      by (simp add: load_gene_nodes_eq built_filter)
  next
    case (Some exc)
    with rd rd' show ?thesis
      by (simp add: load_gene_nodes_raises)
  qed
qed

lemma load_term_nodes_without_invalid:
  "snd (load_term_nodes (without_invalid TermNode_from_row fs) d) = snd (load_term_nodes fs d)"
proof -
  have raises: "\<exists>msg. exc = ValueError msg" if "TermNode_from_row r = Inl exc" for r exc
    using TermNode_raises [OF that] by blast
  show ?thesis
    unfolding load_term_nodes_def Let_def glob_csv_without_invalid
    by (rule load_files_without_invalid [OF raises])
qed

lemma load_edges_without_invalid:
  "snd (load_edges (without_invalid Edge_from_row fs) d) = snd (load_edges fs d)"
proof -
  have raises: "\<exists>msg. exc = ValueError msg" if "Edge_from_row r = Inl exc" for r exc
    using Edge_raises [OF that] by blast
  show ?thesis
    unfolding load_edges_def Let_def glob_csv_without_invalid
    by (rule load_files_without_invalid [OF raises])
qed

lemma load_term_nodes_isl: "isl (snd (load_term_nodes fs d)) \<longleftrightarrow> \<not> reads_cleanly fs (glob_csv fs d)"
proof (cases "reads_cleanly fs (glob_csv fs d)")
  case True
  then show ?thesis
    by (simp add: load_term_nodes_eq reads_cleanly_iff)
next
  case False
  have raises: "\<exists>msg. exc = ValueError msg" if "TermNode_from_row r = Inl exc" for r exc
    using TermNode_raises [OF that] by blast
  from False have "\<exists>f \<in> set (sort (glob_csv fs d)). snd (read_csv fs f) \<noteq> None"
    by (simp add: reads_cleanly_iff)
  from load_files_raises [OF raises this] False show ?thesis
    by (simp add: load_term_nodes_def)
qed

lemma load_edges_isl: "isl (snd (load_edges fs d)) \<longleftrightarrow> \<not> reads_cleanly fs (glob_csv fs d)"
proof (cases "reads_cleanly fs (glob_csv fs d)")
  case True
  then show ?thesis
    by (simp add: load_edges_eq reads_cleanly_iff)
next
  case False
  have raises: "\<exists>msg. exc = ValueError msg" if "Edge_from_row r = Inl exc" for r exc
    using Edge_raises [OF that] by blast
  from False have "\<exists>f \<in> set (sort (glob_csv fs d)). snd (read_csv fs f) \<noteq> None"
    by (simp add: reads_cleanly_iff)
  from load_files_raises [OF raises this] False show ?thesis
    by (simp add: load_edges_def)
qed

lemma load_gene_nodes_isl: "isl (snd (load_gene_nodes fs p)) \<longleftrightarrow> \<not> reads_cleanly fs [p]"
proof -
  obtain rows err where rd: "read_csv fs p = (rows, err)"
    by (cases "read_csv fs p")
  show ?thesis
  proof (cases err)
    case None
    with rd show ?thesis
      by (simp add: load_gene_nodes_eq reads_cleanly_def)
  next
    case (Some exc)
    with rd show ?thesis
      by (simp add: load_gene_nodes_raises reads_cleanly_def)
  qed
qed

lemma load_gene_nodes_clean:
  assumes "reads_cleanly fs [p]"
  shows "load_gene_nodes fs p =
    (diagnostics_of GeneNode_from_row ''gene'' fs [p], Inr (entities_of GeneNode_from_row fs [p]))"
proof -
  from assms have "read_csv fs p = (fst (read_csv fs p), None)"
    by (cases "read_csv fs p") (simp add: reads_cleanly_def split: if_splits)
  from load_gene_nodes_eq [OF this] show ?thesis
    by (simp add: diagnostics_of_def entities_of_def)
qed

lemma load_term_nodes_clean:
  assumes "reads_cleanly fs (glob_csv fs d)"
  shows "load_term_nodes fs d =
    (diagnostics_of TermNode_from_row ''term'' fs (sort (glob_csv fs d)),
     Inr (entities_of TermNode_from_row fs (sort (glob_csv fs d))))"
  using assms by (simp add: load_term_nodes_eq reads_cleanly_iff diagnostics_of_def entities_of_def)

lemma load_edges_clean:
  assumes "reads_cleanly fs (glob_csv fs d)"
  shows "load_edges fs d =
    (diagnostics_of Edge_from_row ''edge'' fs (sort (glob_csv fs d)),
     Inr (entities_of Edge_from_row fs (sort (glob_csv fs d))))"
  using assms by (simp add: load_edges_eq reads_cleanly_iff diagnostics_of_def entities_of_def)

text \<open>
  Claim C4. When the file layer raises nothing, each loader returns the entities built
  from the rows that pass validation, in file and row order, and has printed one line
  for each row that fails. A loader ends with an exception exactly when the file layer
  raises one, never because of a row. Removing the rejected rows from the files
  changes no loader's outcome.
\<close>

theorem loaders_skip_invalid_rows:
  "(reads_cleanly fs [p] \<longrightarrow> load_gene_nodes fs p =
      (diagnostics_of GeneNode_from_row ''gene'' fs [p], Inr (entities_of GeneNode_from_row fs [p])))
 \<and> (reads_cleanly fs (glob_csv fs d) \<longrightarrow> load_term_nodes fs d =
      (diagnostics_of TermNode_from_row ''term'' fs (sort (glob_csv fs d)),
       Inr (entities_of TermNode_from_row fs (sort (glob_csv fs d)))))
 \<and> (reads_cleanly fs (glob_csv fs d) \<longrightarrow> load_edges fs d =
      (diagnostics_of Edge_from_row ''edge'' fs (sort (glob_csv fs d)),
       Inr (entities_of Edge_from_row fs (sort (glob_csv fs d)))))
 \<and> (isl (snd (load_gene_nodes fs p)) \<longleftrightarrow> \<not> reads_cleanly fs [p])
 \<and> (isl (snd (load_term_nodes fs d)) \<longleftrightarrow> \<not> reads_cleanly fs (glob_csv fs d))
 \<and> (isl (snd (load_edges fs d)) \<longleftrightarrow> \<not> reads_cleanly fs (glob_csv fs d))
 \<and> snd (load_gene_nodes (without_invalid GeneNode_from_row fs) p) = snd (load_gene_nodes fs p)
 \<and> snd (load_term_nodes (without_invalid TermNode_from_row fs) d) = snd (load_term_nodes fs d)
 \<and> snd (load_edges (without_invalid Edge_from_row fs) d) = snd (load_edges fs d)"
  by (simp add: load_gene_nodes_clean load_term_nodes_clean load_edges_clean
      load_gene_nodes_isl load_term_nodes_isl load_edges_isl
      load_gene_nodes_without_invalid load_term_nodes_without_invalid load_edges_without_invalid)

text \<open>
  The theorem on the example: the gene file with an empty label in row 2, the term
  files, the edge file with an empty relation in row 1, and a gene file that does not
  exist.
\<close>

theorem loaders_skip_invalid_rows_witness:
  "reads_cleanly example_fs [example_gene_path]
 \<and> load_gene_nodes example_fs example_gene_path =
     ([''Skipping invalid gene row #2 in data/gene_node/Gene.nodes.csv: Gene row is missing required 'label' column''],
      Inr [\<lparr>GeneNode.label = ''TP53''\<rparr>, \<lparr>GeneNode.label = ''BRCA1''\<rparr>])
 \<and> reads_cleanly example_fs (glob_csv example_fs [''data'', ''term_node''])
 \<and> load_term_nodes example_fs [''data'', ''term_node''] =
     ([''Skipping invalid term row #2 in data/term_node/b.csv: Term row is missing required 'label' column''],
      Inr [\<lparr>TermNode.label = ''GO:001''\<rparr>, \<lparr>TermNode.label = ''GO:002''\<rparr>])
 \<and> reads_cleanly example_fs (glob_csv example_fs [''data'', ''term_gene_edge''])
 \<and> load_edges example_fs [''data'', ''term_gene_edge''] =
     ([''Skipping invalid edge row #1 in data/term_gene_edge/e.csv: Edge row is missing required 'source_label', 'relation', or 'target_label' column''],
      Inr [\<lparr>source_label = ''GO:001'', relation = ''annotates'', target_label = ''TP53''\<rparr>])
 \<and> \<not> reads_cleanly example_fs [[''data'', ''nowhere.csv'']]
 \<and> isl (snd (load_gene_nodes example_fs [''data'', ''nowhere.csv'']))"
proof -
  have c1: "reads_cleanly example_fs [example_gene_path]"
    by code_simp
  have c2: "reads_cleanly example_fs (glob_csv example_fs [''data'', ''term_gene_edge''])"
    by code_simp
  have c3: "reads_cleanly example_fs (glob_csv example_fs [''data'', ''term_node''])"
    by code_simp
  have c4: "\<not> reads_cleanly example_fs [[''data'', ''nowhere.csv'']]"
    by code_simp
  have d1: "diagnostics_of GeneNode_from_row ''gene'' example_fs [example_gene_path] =
     [''Skipping invalid gene row #2 in data/gene_node/Gene.nodes.csv: Gene row is missing required 'label' column'']"
    by code_simp
  have e1: "entities_of GeneNode_from_row example_fs [example_gene_path] =
     [\<lparr>GeneNode.label = ''TP53''\<rparr>, \<lparr>GeneNode.label = ''BRCA1''\<rparr>]"
    by code_simp
  have d2: "diagnostics_of Edge_from_row ''edge'' example_fs (sort (glob_csv example_fs [''data'', ''term_gene_edge''])) =
     [''Skipping invalid edge row #1 in data/term_gene_edge/e.csv: Edge row is missing required 'source_label', 'relation', or 'target_label' column'']"
    by code_simp
  have e2: "entities_of Edge_from_row example_fs (sort (glob_csv example_fs [''data'', ''term_gene_edge''])) =
     [\<lparr>source_label = ''GO:001'', relation = ''annotates'', target_label = ''TP53''\<rparr>]"
    by code_simp
  have d3: "diagnostics_of TermNode_from_row ''term'' example_fs (sort (glob_csv example_fs [''data'', ''term_node''])) =
     [''Skipping invalid term row #2 in data/term_node/b.csv: Term row is missing required 'label' column'']"
    by code_simp
  have e3: "entities_of TermNode_from_row example_fs (sort (glob_csv example_fs [''data'', ''term_node''])) =
     [\<lparr>TermNode.label = ''GO:001''\<rparr>, \<lparr>TermNode.label = ''GO:002''\<rparr>]"
    by code_simp
  note t1 = loaders_skip_invalid_rows [of example_fs example_gene_path "[''data'', ''term_gene_edge'']"]
  note t2 = loaders_skip_invalid_rows [of example_fs "[''data'', ''nowhere.csv'']" "[''data'', ''term_node'']"]
  from t1 t2 c1 c2 c3 c4 show ?thesis
    by (simp only: d1 e1 d2 e2 d3 e3 simp_thms)
qed

text \<open>
  Claim C5. For a directory with entries \<open>names\<close> whose CSV files read cleanly,
  \<open>load_term_nodes\<close> and \<open>load_edges\<close> return the entities of the files whose
  name ends with \<open>.csv\<close>, file after file in the sorted order of the names and in
  row order within a file. The order of the files depends on the names only, not on
  the order in which the directory lists them.
\<close>

theorem files_in_sorted_name_order:
  assumes "scandir fs d = Some names" and "reads_cleanly fs (glob_csv fs d)"
  shows "snd (load_term_nodes fs d) =
      Inr (concat (map (\<lambda>n. built TermNode_from_row (fst (read_csv fs (d @ [n]))))
        (sort (filter is_csv names))))
   \<and> snd (load_edges fs d) =
      Inr (concat (map (\<lambda>n. built Edge_from_row (fst (read_csv fs (d @ [n]))))
        (sort (filter is_csv names))))
   \<and> (mset names' = mset names \<longrightarrow> sort (filter is_csv names') = sort (filter is_csv names))"
proof -
  have s: "sort (glob_csv fs d) = map (\<lambda>n. d @ [n]) (sort (filter is_csv names))"
    by (simp add: sort_glob_csv assms(1))
  have p: "sort (filter is_csv names') = sort (filter is_csv names)" if "mset names' = mset names"
  proof (rule properties_for_sort)
    have "mset (filter is_csv names') = mset (filter is_csv names)"
      by (simp add: that)
    then show "mset (sort (filter is_csv names)) = mset (filter is_csv names')"
      by simp
    show "sorted (sort (filter is_csv names))"
      by simp
  qed
  show ?thesis
    using p by (simp add: load_term_nodes_clean [OF assms(2)] load_edges_clean [OF assms(2)] s
        entities_of_def comp_def)
qed

text \<open>
  The theorem on the example term directory, listed as \<open>b.csv\<close>, \<open>notes.txt\<close>,
  \<open>a.csv\<close>: the term of \<open>a.csv\<close> comes first.
\<close>

theorem files_in_sorted_name_order_witness:
  "scandir example_fs [''data'', ''term_node''] = Some [''b.csv'', ''notes.txt'', ''a.csv'']
 \<and> reads_cleanly example_fs (glob_csv example_fs [''data'', ''term_node''])
 \<and> snd (load_term_nodes example_fs [''data'', ''term_node'']) =
      Inr [\<lparr>TermNode.label = ''GO:001''\<rparr>, \<lparr>TermNode.label = ''GO:002''\<rparr>]"
proof -
  have a: "scandir example_fs [''data'', ''term_node''] = Some [''b.csv'', ''notes.txt'', ''a.csv'']"
    by (simp add: example_fs_def)
  have c: "reads_cleanly example_fs (glob_csv example_fs [''data'', ''term_node''])"
    by code_simp
  have e: "concat (map (\<lambda>n. built TermNode_from_row (fst (read_csv example_fs ([''data'', ''term_node''] @ [n]))))
        (sort (filter is_csv [''b.csv'', ''notes.txt'', ''a.csv'']))) =
      [\<lparr>TermNode.label = ''GO:001''\<rparr>, \<lparr>TermNode.label = ''GO:002''\<rparr>]"
    by code_simp
  from files_in_sorted_name_order [OF a c, THEN conjunct1] a c show ?thesis
    by (simp only: e simp_thms)
qed

text \<open>
  Claim C6. For a directory that does not exist or has no entry, \<open>load_term_nodes\<close>
  and \<open>load_edges\<close> return the empty list, print nothing and raise nothing, and the
  document built from the result has the count 0.
\<close>

theorem missing_or_empty_directory:
  assumes "scandir fs d = None \<or> scandir fs d = Some []"
  shows "load_term_nodes fs d = ([], Inr []) \<and> load_edges fs d = ([], Inr [])
   \<and> doc_count (build_knowledge_graph genes (projr (snd (load_term_nodes fs d))) triples) ''terms'' = Some 0
   \<and> doc_count (build_knowledge_graph genes terms (projr (snd (load_edges fs d)))) ''triples'' = Some 0"
proof -
  from assms have g: "glob_csv fs d = []"
    by (auto simp: glob_csv_def)
  have t: "load_term_nodes fs d = ([], Inr [])"
    by (simp add: load_term_nodes_def g)
  have e: "load_edges fs d = ([], Inr [])"
    by (simp add: load_edges_def g)
  show ?thesis
    by (simp add: t e doc_count_def doc_get_def build_knowledge_graph_def)
qed

text \<open>
  The theorem at a directory that does not exist and at an empty one.
\<close>

theorem missing_or_empty_directory_witness:
  "scandir example_fs [''data'', ''missing''] = None
 \<and> load_term_nodes example_fs [''data'', ''missing''] = ([], Inr [])
 \<and> scandir example_fs [''data'', ''empty''] = Some []
 \<and> load_edges example_fs [''data'', ''empty''] = ([], Inr [])"
proof -
  have a: "scandir example_fs [''data'', ''missing''] = None"
    by (simp add: example_fs_def)
  have b: "scandir example_fs [''data'', ''empty''] = Some []"
    by (simp add: example_fs_def)
  from missing_or_empty_directory [OF disjI1, OF a] missing_or_empty_directory [OF disjI2, OF b] a b
  show ?thesis by simp
qed

lemma one_row_outcome:
  assumes "\<And>r exc. from_row r = Inl exc \<Longrightarrow> \<exists>msg. exc = ValueError msg"
  shows "(\<exists>x. load_rows from_row kind p [(idx, r)] [] [] = ([], Inr [x]))
       \<or> (\<exists>line. load_rows from_row kind p [(idx, r)] [] [] = ([line], Inr []))"
proof (cases "from_row r")
  case (Inl exc)
  with assms obtain msg where "from_row r = Inl (ValueError msg)" by blast
  then show ?thesis by simp
next
  case (Inr x)
  then show ?thesis by simp
qed

lemma entities_diagnostics_length:
  "length (entities_of from_row fs files) + length (diagnostics_of from_row kind fs files)
     = sum_list (map (\<lambda>f. length (fst (read_csv fs f))) files)"
proof (induction files)
  case Nil
  show ?case by (simp add: entities_of_def diagnostics_of_def)
next
  case (Cons f files)
  have "length (built from_row (fst (read_csv fs f)))
      + length (skip_lines from_row kind f (enumerate 1 (fst (read_csv fs f)))) = length (fst (read_csv fs f))"
    by (rule built_skip_lines_length)
  with Cons.IH show ?case
    by (simp add: entities_of_def diagnostics_of_def)
qed

text \<open>
  Claim C10. When a loader returns, the number of entities plus the number of lines
  printed is the number of rows of the files it processed. A single row gives either
  one entity and no line, or one line and no entity.
\<close>

theorem rows_accounted_for:
  "(load_gene_nodes fs p = (out1, Inr genes) \<longrightarrow>
      length genes + length out1 = length (fst (read_csv fs p)))
 \<and> (load_term_nodes fs d = (out2, Inr terms) \<longrightarrow>
      length terms + length out2 = sum_list (map (\<lambda>f. length (fst (read_csv fs f))) (sort (glob_csv fs d))))
 \<and> (load_edges fs d = (out3, Inr triples) \<longrightarrow>
      length triples + length out3 = sum_list (map (\<lambda>f. length (fst (read_csv fs f))) (sort (glob_csv fs d))))
 \<and> ((\<exists>x. load_rows GeneNode_from_row ''gene'' p [(idx, r)] [] [] = ([], Inr [x]))
     \<or> (\<exists>line. load_rows GeneNode_from_row ''gene'' p [(idx, r)] [] [] = ([line], Inr [])))
 \<and> ((\<exists>x. load_rows TermNode_from_row ''term'' p [(idx, r)] [] [] = ([], Inr [x]))
     \<or> (\<exists>line. load_rows TermNode_from_row ''term'' p [(idx, r)] [] [] = ([line], Inr [])))
 \<and> ((\<exists>x. load_rows Edge_from_row ''edge'' p [(idx, r)] [] [] = ([], Inr [x]))
     \<or> (\<exists>line. load_rows Edge_from_row ''edge'' p [(idx, r)] [] [] = ([line], Inr [])))"
proof (intro conjI impI)
  assume a: "load_gene_nodes fs p = (out1, Inr genes)"
  then have "\<not> isl (snd (load_gene_nodes fs p))" by simp
  then have "reads_cleanly fs [p]" by (simp add: load_gene_nodes_isl)
  from load_gene_nodes_clean [OF this] a
  have "out1 = diagnostics_of GeneNode_from_row ''gene'' fs [p]"
    and "genes = entities_of GeneNode_from_row fs [p]" by simp_all
  then show "length genes + length out1 = length (fst (read_csv fs p))"
    using entities_diagnostics_length [of GeneNode_from_row fs "[p]" "''gene''"] by simp
next
  assume a: "load_term_nodes fs d = (out2, Inr terms)"
  then have "\<not> isl (snd (load_term_nodes fs d))" by simp
  then have "reads_cleanly fs (glob_csv fs d)" by (simp add: load_term_nodes_isl)
  from load_term_nodes_clean [OF this] a
  have "out2 = diagnostics_of TermNode_from_row ''term'' fs (sort (glob_csv fs d))"
    and "terms = entities_of TermNode_from_row fs (sort (glob_csv fs d))" by simp_all
  then show "length terms + length out2 =
      sum_list (map (\<lambda>f. length (fst (read_csv fs f))) (sort (glob_csv fs d)))"
    using entities_diagnostics_length [of TermNode_from_row fs "sort (glob_csv fs d)" "''term''"] by simp
next
  assume a: "load_edges fs d = (out3, Inr triples)"
  then have "\<not> isl (snd (load_edges fs d))" by simp
  then have "reads_cleanly fs (glob_csv fs d)" by (simp add: load_edges_isl)
  from load_edges_clean [OF this] a
  have "out3 = diagnostics_of Edge_from_row ''edge'' fs (sort (glob_csv fs d))"
    and "triples = entities_of Edge_from_row fs (sort (glob_csv fs d))" by simp_all
  then show "length triples + length out3 =
      sum_list (map (\<lambda>f. length (fst (read_csv fs f))) (sort (glob_csv fs d)))"
    using entities_diagnostics_length [of Edge_from_row fs "sort (glob_csv fs d)" "''edge''"] by simp
next
  have "\<exists>msg. exc = ValueError msg" if "GeneNode_from_row r = Inl exc" for r exc
    using GeneNode_raises [OF that] by blast
  from one_row_outcome [of GeneNode_from_row, OF this]
  show "(\<exists>x. load_rows GeneNode_from_row ''gene'' p [(idx, r)] [] [] = ([], Inr [x]))
     \<or> (\<exists>line. load_rows GeneNode_from_row ''gene'' p [(idx, r)] [] [] = ([line], Inr []))" .
next
  have "\<exists>msg. exc = ValueError msg" if "TermNode_from_row r = Inl exc" for r exc
    using TermNode_raises [OF that] by blast
  from one_row_outcome [of TermNode_from_row, OF this]
  show "(\<exists>x. load_rows TermNode_from_row ''term'' p [(idx, r)] [] [] = ([], Inr [x]))
     \<or> (\<exists>line. load_rows TermNode_from_row ''term'' p [(idx, r)] [] [] = ([line], Inr []))" .
next
  have "\<exists>msg. exc = ValueError msg" if "Edge_from_row r = Inl exc" for r exc
    using Edge_raises [OF that] by blast
  from one_row_outcome [of Edge_from_row, OF this]
  show "(\<exists>x. load_rows Edge_from_row ''edge'' p [(idx, r)] [] [] = ([], Inr [x]))
     \<or> (\<exists>line. load_rows Edge_from_row ''edge'' p [(idx, r)] [] [] = ([line], Inr []))" .
qed

text \<open>
  The theorem on the example: two genes and one skipped row from three rows, two terms
  and one skipped row from files of one and two rows, one triple and one skipped row
  from two rows.
\<close>

theorem rows_accounted_for_witness:
  "load_gene_nodes example_fs example_gene_path =
     ([''Skipping invalid gene row #2 in data/gene_node/Gene.nodes.csv: Gene row is missing required 'label' column''],
      Inr [\<lparr>GeneNode.label = ''TP53''\<rparr>, \<lparr>GeneNode.label = ''BRCA1''\<rparr>])
 \<and> length (fst (read_csv example_fs example_gene_path)) = 3
 \<and> load_term_nodes example_fs [''data'', ''term_node''] =
     ([''Skipping invalid term row #2 in data/term_node/b.csv: Term row is missing required 'label' column''],
      Inr [\<lparr>TermNode.label = ''GO:001''\<rparr>, \<lparr>TermNode.label = ''GO:002''\<rparr>])
 \<and> sum_list (map (\<lambda>f. length (fst (read_csv example_fs f))) (sort (glob_csv example_fs [''data'', ''term_node'']))) = 3
 \<and> load_edges example_fs [''data'', ''term_gene_edge''] =
     ([''Skipping invalid edge row #1 in data/term_gene_edge/e.csv: Edge row is missing required 'source_label', 'relation', or 'target_label' column''],
      Inr [\<lparr>source_label = ''GO:001'', relation = ''annotates'', target_label = ''TP53''\<rparr>])
 \<and> sum_list (map (\<lambda>f. length (fst (read_csv example_fs f))) (sort (glob_csv example_fs [''data'', ''term_gene_edge'']))) = 2"
proof -
  have g: "load_gene_nodes example_fs example_gene_path =
     ([''Skipping invalid gene row #2 in data/gene_node/Gene.nodes.csv: Gene row is missing required 'label' column''],
      Inr [\<lparr>GeneNode.label = ''TP53''\<rparr>, \<lparr>GeneNode.label = ''BRCA1''\<rparr>])"
    by code_simp
  have t: "load_term_nodes example_fs [''data'', ''term_node''] =
     ([''Skipping invalid term row #2 in data/term_node/b.csv: Term row is missing required 'label' column''],
      Inr [\<lparr>TermNode.label = ''GO:001''\<rparr>, \<lparr>TermNode.label = ''GO:002''\<rparr>])"
    by code_simp
  have e: "load_edges example_fs [''data'', ''term_gene_edge''] =
     ([''Skipping invalid edge row #1 in data/term_gene_edge/e.csv: Edge row is missing required 'source_label', 'relation', or 'target_label' column''],
      Inr [\<lparr>source_label = ''GO:001'', relation = ''annotates'', target_label = ''TP53''\<rparr>])"
    by code_simp
  note g' = rows_accounted_for [THEN conjunct1, rule_format, OF g]
  note t' = rows_accounted_for [THEN conjunct2, THEN conjunct1, rule_format, OF t]
  note e' = rows_accounted_for [THEN conjunct2, THEN conjunct2, THEN conjunct1, rule_format, OF e]
  from g g' t t' e e' show ?thesis
    by simp
qed

subsection \<open>The whole run\<close>

lemma load_files_cong:
  assumes "read_csv fs' = read_csv fs"
  shows "load_files from_row kind fs' files acc out = load_files from_row kind fs files acc out"
  by (induction files arbitrary: acc out)
    (simp_all add: assms split: prod.split sum.split option.split)

lemma sort_glob_csv_perm:
  assumes "map_option mset (scandir fs' d) = map_option mset (scandir fs d)"
  shows "sort (glob_csv fs' d) = sort (glob_csv fs d)"
proof (cases "scandir fs d")
  case None
  with assms have "scandir fs' d = None" by simp
  with None show ?thesis by (simp add: glob_csv_def)
next
  case (Some names)
  with assms obtain names' where n': "scandir fs' d = Some names'" and m: "mset names' = mset names"
    by (cases "scandir fs' d") auto
  have "mset (glob_csv fs' d) = mset (glob_csv fs d)"
    by (simp add: glob_csv_def Some n' m)
  then show ?thesis
    by (intro properties_for_sort) simp_all
qed

text \<open>
  Claim C8. The result of \<open>main\<close> (the lines printed, and the output path with the
  text written) is a function of the arguments, of what the files contain and of which
  entries each directory has: two file systems that differ only in the order in which
  directories list their entries give the same result.
\<close>

theorem pipeline_deterministic:
  assumes "read_csv fs' = read_csv fs"
    and "\<And>d. map_option mset (scandir fs' d) = map_option mset (scandir fs d)"
  shows "main fs' a = main fs a"
proof -
  have g: "load_gene_nodes fs' p = load_gene_nodes fs p" for p
    by (simp add: load_gene_nodes_def assms(1))
  have t: "load_term_nodes fs' d = load_term_nodes fs d" for d
    by (simp add: load_term_nodes_def sort_glob_csv_perm [OF assms(2)] load_files_cong [OF assms(1)])
  have e: "load_edges fs' d = load_edges fs d" for d
    by (simp add: load_edges_def sort_glob_csv_perm [OF assms(2)] load_files_cong [OF assms(1)])
  show ?thesis
    by (simp add: main_def g t e)
qed

text \<open>
  The theorem on the example and the same files listed in another order, with the text
  written for it.
\<close>

theorem pipeline_deterministic_witness:
  \<open>scandir example_fs_reordered [''data'', ''term_node''] \<noteq> scandir example_fs [''data'', ''term_node'']
 \<and> main example_fs_reordered example_args = main example_fs example_args
 \<and> snd (main example_fs example_args) = Inr ([''data'', ''compact_kg.json''], join [CHR 0x0A]
     [''{'',
      ''  "counts": {'',
      ''    "genes": 2,'',
      ''    "terms": 2,'',
      ''    "triples": 1'',
      ''  },'',
      ''  "genes": ['',
      ''    {'',
      ''      "label": "TP53"'',
      ''    },'',
      ''    {'',
      ''      "label": "BRCA1"'',
      ''    }'',
      ''  ],'',
      ''  "terms": ['',
      ''    {'',
      ''      "label": "GO:001"'',
      ''    },'',
      ''    {'',
      ''      "label": "GO:002"'',
      ''    }'',
      ''  ],'',
      ''  "triples": ['',
      ''    {'',
      ''      "source_label": "GO:001",'',
      ''      "relation": "annotates",'',
      ''      "target_label": "TP53"'',
      ''    }'',
      ''  ]'',
      ''}''])\<close>
proof -
  have r: "read_csv example_fs_reordered = read_csv example_fs"
    by (simp add: example_fs_reordered_def)
  have s: "map_option mset (scandir example_fs_reordered d) = map_option mset (scandir example_fs d)" for d
    by (simp add: example_fs_reordered_def example_fs_def)
  have n: "scandir example_fs_reordered [''data'', ''term_node''] \<noteq> scandir example_fs [''data'', ''term_node'']"
    by (simp add: example_fs_reordered_def example_fs_def)
  have x: \<open>snd (main example_fs example_args) = Inr ([''data'', ''compact_kg.json''], join [CHR 0x0A]
     [''{'',
      ''  "counts": {'',
      ''    "genes": 2,'',
      ''    "terms": 2,'',
      ''    "triples": 1'',
      ''  },'',
      ''  "genes": ['',
      ''    {'',
      ''      "label": "TP53"'',
      ''    },'',
      ''    {'',
      ''      "label": "BRCA1"'',
      ''    }'',
      ''  ],'',
      ''  "terms": ['',
      ''    {'',
      ''      "label": "GO:001"'',
      ''    },'',
      ''    {'',
      ''      "label": "GO:002"'',
      ''    }'',
      ''  ],'',
      ''  "triples": ['',
      ''    {'',
      ''      "source_label": "GO:001",'',
      ''      "relation": "annotates",'',
      ''      "target_label": "TP53"'',
      ''    }'',
      ''  ]'',
      ''}''])\<close>
    by code_simp
  from pipeline_deterministic [OF r s] n x show ?thesis
    by (simp only: simp_thms)
qed

end
